theory Spec2Isabelle
  imports Complex_Main "HOL-Library.Multiset"
begin

section \<open>Data model of the calorie tracker\<close>

text \<open>
  The Mongoose schemas of \<^verbatim>\<open>backend/models\<close> become records. A JavaScript
  \<^verbatim>\<open>Number\<close> is modelled as an exact \<^typ>\<open>real\<close>. Two things of the program are
  therefore outside the model: a numeric field is always present and finite (a food
  document saved without \<^verbatim>\<open>calories\<close> would give \<^verbatim>\<open>NaN\<close>), and sums and products
  are exact, where the program rounds each result to an IEEE double. Statements about
  the size of that rounding error cannot be made here. A \<^verbatim>\<open>Date\<close> is its number of
  milliseconds since the epoch, an ObjectId is a string. Of \<^verbatim>\<open>FoodSchema\<close> only the
  fields that the computations read are kept.
\<close>

type_synonym objectId = string

record macros =
  protein :: real
  carbs :: real
  fat :: real

section \<open>The dashboard's view of today\<close>

text \<open>
  \<^verbatim>\<open>frontend/screens/main/DashboardScreen.js\<close> reads \<^verbatim>\<open>daily\<close> from the stats
  store and \<^verbatim>\<open>user\<close> from the auth store. A daily stat has the fields the screen
  displays; an entry of \<^verbatim>\<open>weekly\<close> has a \<^verbatim>\<open>date\<close> as well. The user object
  is the projection sent by the login and registration responses, in which
  \<^verbatim>\<open>dailyCalorieGoal\<close> can be missing.
\<close>

record stat =
  calories :: real
  macros :: macros
  remaining :: real

record DailyStat = stat +
  date :: int

record authUser =
  dailyCalorieGoal :: "real option"

text \<open>
  \<^verbatim>\<open>const today = daily || { calories: 0, macros: {...}, remaining: user?.dailyCalorieGoal || 2000 }\<close>.
  \<open>None\<close> is a null or undefined value. The operator \<^verbatim>\<open>||\<close> takes its right
  operand when the left one is falsy: a missing stat, a missing user, a missing goal, or
  a goal of 0.
\<close>

definition today :: "stat option \<Rightarrow> authUser option \<Rightarrow> stat" where
  "today daily auth_user =
     (case daily of
        Some d \<Rightarrow> d
      | None \<Rightarrow>
          \<lparr>calories = 0,
           macros = \<lparr>protein = 0, carbs = 0, fat = 0\<rparr>,
           remaining =
             (case auth_user of
                None \<Rightarrow> 2000
              | Some u \<Rightarrow>
                  (case dailyCalorieGoal u of
                     None \<Rightarrow> 2000
                   | Some g \<Rightarrow> if g = 0 then 2000 else g))\<rparr>)"

section \<open>Foods and meals\<close>

record servingSize =
  amount :: real
  unit :: string

record food =
  servingSize :: servingSize
  calories :: real
  macros :: macros

text \<open>
  \<^verbatim>\<open>FoodItemSchema.food\<close> is a reference. The pre-save hook reads
  \<^verbatim>\<open>item.food.calories\<close> and \<^verbatim>\<open>item.food.macros.protein\<close>, so it needs the
  populated document (the hook's comment says the food data is assumed to be filled in already).
  \<open>Some f\<close> is a populated reference; \<open>None\<close> is a reference that is not a food
  document (a bare ObjectId or null), on which \<^verbatim>\<open>item.food.macros.protein\<close>
  throws a TypeError.
\<close>

record foodItem =
  food :: "food option"
  quantity :: real
  unit :: string

record meal =
  user :: objectId
  name :: string
  type :: string
  items :: "foodItem list"
  date :: int
  totalCalories :: real
  totalMacros :: macros
  isFavorite :: bool
  "notes" :: string
  createdAt :: int

datatype error = TypeError

section \<open>The pre-save hook of the meal schema\<close>

text \<open>
  \<^verbatim>\<open>this.items.forEach(item => { const factor = item.quantity; totalCals += ... })\<close>:
  the four accumulators are threaded through the items from left to right. The
  factor is the raw quantity; \<^verbatim>\<open>item.unit\<close> and the serving size are not read.
\<close>

fun forEach_item :: "foodItem list \<Rightarrow> real \<times> real \<times> real \<times> real
    \<Rightarrow> error + real \<times> real \<times> real \<times> real" where
  "forEach_item [] acc = Inr acc"
| "forEach_item (item # rest) (totalCals, totalProtein, totalCarbs, totalFat) =
     (case food item of
        None \<Rightarrow> Inl TypeError
      | Some f \<Rightarrow>
          (let factor = quantity item in
           forEach_item rest
             (totalCals + calories f * factor,
              totalProtein + protein (macros f) * factor,
              totalCarbs + carbs (macros f) * factor,
              totalFat + fat (macros f) * factor)))"

text \<open>
  \<^verbatim>\<open>MealSchema.pre('save', async function(next) {...})\<close>. An exception inside the
  async function rejects the save and nothing is assigned; otherwise the two cached
  fields are assigned and \<^verbatim>\<open>next()\<close> is called.
\<close>

definition MealSchema_pre_save :: "meal \<Rightarrow> error + meal" where
  "MealSchema_pre_save this =
     (case forEach_item (items this) (0, 0, 0, 0) of
        Inl e \<Rightarrow> Inl e
      | Inr (totalCals, totalProtein, totalCarbs, totalFat) \<Rightarrow>
          Inr (this\<lparr>totalCalories := totalCals,
                    totalMacros := \<lparr>protein = totalProtein, carbs = totalCarbs, fat = totalFat\<rparr>\<rparr>))"

text \<open>The cached totals of a hook result, or its error.\<close>

definition cached :: "error + meal \<Rightarrow> error + real \<times> macros" where
  "cached r = (case r of Inl e \<Rightarrow> Inl e | Inr m \<Rightarrow> Inr (totalCalories m, totalMacros m))"

text \<open>What one populated item adds to the four accumulators.\<close>

definition contribution :: "foodItem \<Rightarrow> real \<times> real \<times> real \<times> real" where
  "contribution item =
     (case food item of
        None \<Rightarrow> (0, 0, 0, 0)
      | Some f \<Rightarrow> (calories f * quantity item, protein (macros f) * quantity item,
                   carbs (macros f) * quantity item, fat (macros f) * quantity item))"

definition populated :: "foodItem list \<Rightarrow> bool" where
  "populated xs = list_all (\<lambda>item. food item \<noteq> None) xs"

subsection \<open>Example data\<close>

definition salad :: food where
  "salad = \<lparr>servingSize = \<lparr>amount = 100, unit = ''g''\<rparr>, calories = 50,
            macros = \<lparr>protein = 3, carbs = 8, fat = 1\<rparr>\<rparr>"

definition bread :: food where
  "bread = \<lparr>servingSize = \<lparr>amount = 1, unit = ''slice''\<rparr>, calories = 80,
            macros = \<lparr>protein = 4, carbs = 15, fat = 1\<rparr>\<rparr>"

definition meal_of :: "foodItem list \<Rightarrow> meal" where
  "meal_of xs = \<lparr>user = ''u1'', name = ''lunch box'', type = ''lunch'', items = xs,
                 date = 1700000000000, totalCalories = 7, totalMacros = \<lparr>protein = 7, carbs = 7, fat = 7\<rparr>,
                 isFavorite = False, notes = ''n'', createdAt = 1700000000000\<rparr>"

definition salad_200g :: foodItem where
  "salad_200g = \<lparr>food = Some salad, quantity = 200, unit = ''g''\<rparr>"

definition salad_2_pieces :: foodItem where
  "salad_2_pieces = \<lparr>food = Some salad, quantity = 2, unit = ''piece''\<rparr>"

definition bread_2_slices :: foodItem where
  "bread_2_slices = \<lparr>food = Some bread, quantity = 2, unit = ''slice''\<rparr>"

definition saved_lunch :: meal where
  "saved_lunch = (meal_of [salad_200g, bread_2_slices])
     \<lparr>totalCalories := 10160, totalMacros := \<lparr>protein = 608, carbs = 1630, fat = 202\<rparr>\<rparr>"

section \<open>Goal computation at registration\<close>

text \<open>\<^verbatim>\<open>Math.round\<close>: the nearest integer, a tie going up.\<close>

definition Math_round :: "real \<Rightarrow> real" where
  "Math_round x = of_int \<lfloor>x + 1 / 2\<rfloor>"

text \<open>
  Lines 273 to 286 of \<^verbatim>\<open>registerUser\<close> in \<^verbatim>\<open>backend/controllers/userController.js\<close>,
  the block the specification calls computeGoals. \<^verbatim>\<open>calculateTDEE\<close> lives in
  \<^verbatim>\<open>utils/metabolismCalculator\<close>, which is not part of the sources, so its result
  \<open>tdee\<close> is a parameter. The result is \<open>(dailyCalorieGoal, macroGoals)\<close>.
\<close>

definition computeGoals :: "real \<Rightarrow> real \<Rightarrow> string \<Rightarrow> real \<times> macros" where
  "computeGoals tdee weight goal =
     (let calorieGoal = tdee;
          calorieGoal = (if goal = ''lose'' then tdee - 500 else calorieGoal);
          calorieGoal = (if goal = ''gain'' then tdee + 500 else calorieGoal);
          proteinPerKg = 2.0;
          protein = Math_round (weight * proteinPerKg);
          fat = Math_round ((calorieGoal * 0.25) / 9);
          remainingCalories = calorieGoal - (protein * 4) - (fat * 9);
          carbs = Math_round (remainingCalories / 4)
      in (calorieGoal, \<lparr>protein = protein, carbs = carbs, fat = fat\<rparr>))"

text \<open>
  The request body, the user document built from it, and the HTTP response: its status,
  its message (accents left out) and the created user. The response carries no other
  field than the token and a projection of the user.
\<close>

record reqBody =
  email :: string
  password :: string
  firstName :: string
  lastName :: string
  dateOfBirth :: int
  gender :: string
  height :: real
  weight :: real
  activityLevel :: string
  goal :: string

record User = reqBody +
  dailyCalorieGoal :: real
  macroGoals :: macros
  weightHistory :: "(real \<times> int) list"

datatype response = Response (status: nat) (message: string) (created: "User option")

text \<open>\<^verbatim>\<open>new User({...})\<close>; \<open>now\<close> is the value of \<^verbatim>\<open>new Date()\<close>.\<close>

definition newUser :: "(string \<Rightarrow> real \<Rightarrow> real \<Rightarrow> int \<Rightarrow> string \<Rightarrow> real) \<Rightarrow> int \<Rightarrow> reqBody \<Rightarrow> User" where
  "newUser calculateTDEE now body =
     (let tdee = calculateTDEE (gender body) (weight body) (height body) (dateOfBirth body)
                   (activityLevel body);
          (calorieGoal, goals) = computeGoals tdee (weight body) (goal body)
      in \<lparr>email = email body, password = password body, firstName = firstName body,
          lastName = lastName body, dateOfBirth = dateOfBirth body, gender = gender body,
          height = height body, weight = weight body, activityLevel = activityLevel body,
          goal = goal body, dailyCalorieGoal = calorieGoal, macroGoals = goals,
          weightHistory = [(weight body, now)]\<rparr>)"

text \<open>
  The control flow of \<^verbatim>\<open>registerUser\<close>: \<open>existingUser\<close> is whether
  \<^verbatim>\<open>User.findOne({ email })\<close> found a user (status 400), \<open>saved\<close> is whether
  \<^verbatim>\<open>newUser.save()\<close> and the token signature went through; any exception there is
  caught and answered with status 500.
\<close>

definition registerUser ::
  "(string \<Rightarrow> real \<Rightarrow> real \<Rightarrow> int \<Rightarrow> string \<Rightarrow> real) \<Rightarrow> bool \<Rightarrow> bool \<Rightarrow> int \<Rightarrow> reqBody \<Rightarrow> response" where
  "registerUser calculateTDEE existingUser saved now body =
     (if existingUser then Response 400 ''Cet email est deja utilise'' None
      else if saved
        then Response 201 ''Utilisateur cree avec succes'' (Some (newUser calculateTDEE now body))
        else Response 500 ''Erreur lors de l'inscription'' None)"

text \<open>
  The carbohydrate target as the specification words it, for comparison with
  \<open>computeGoals\<close>: the remainder is taken from the unrounded protein and fat
  energies and rounded once.
\<close>

definition carbs_from_unrounded :: "real \<Rightarrow> real \<Rightarrow> real" where
  "carbs_from_unrounded calorieGoal w =
     Math_round ((calorieGoal - (w * 2.0) * 4 - ((calorieGoal * 0.25) / 9) * 9) / 4)"

subsection \<open>Example registration\<close>

definition body100 :: reqBody where
  "body100 = \<lparr>email = ''a@b.c'', password = ''pw'', firstName = ''A'', lastName = ''B'',
               dateOfBirth = 0, gender = ''male'', height = 180, weight = 100,
               activityLevel = ''sedentary'', goal = ''lose''\<rparr>"

definition registered100 :: User where
  "registered100 = \<lparr>email = ''a@b.c'', password = ''pw'', firstName = ''A'', lastName = ''B'',
               dateOfBirth = 0, gender = ''male'', height = 180, weight = 100,
               activityLevel = ''sedentary'', goal = ''lose'', dailyCalorieGoal = 500,
               macroGoals = \<lparr>protein = 200, carbs = - 106, fat = 14\<rparr>,
               weightHistory = [(100, 0)]\<rparr>"

section \<open>Daily and weekly statistics\<close>

text \<open>
  Modelled from the spec: the calendar day of a timestamp. The statistics code
  (\<^verbatim>\<open>store/actions/statsActions\<close> and the service behind it) is not part of the
  sources. A timestamp is in milliseconds; the consumer's time zone is the explicit
  input \<open>tz\<close>, its offset in milliseconds; a calendar day is a day number.
\<close>

definition dayOf :: "int \<Rightarrow> int \<Rightarrow> int" where
  "dayOf tz t = (t + tz) div 86400000"

text \<open>
  Modelled from the spec: aggregateDay of section 4.2, missing from the sources like the
  rest of the statistics. It sums each meal's cached total, component by component.
\<close>

definition aggregateDay :: "meal list \<Rightarrow> real \<times> macros" where
  "aggregateDay ms =
     (sum_list (map totalCalories ms),
      \<lparr>protein = sum_list (map (\<lambda>m. protein (totalMacros m)) ms),
       carbs = sum_list (map (\<lambda>m. carbs (totalMacros m)) ms),
       fat = sum_list (map (\<lambda>m. fat (totalMacros m)) ms)\<rparr>)"

text \<open>
  Modelled from the spec: dailyStat of section 4.4, missing from the sources. It keeps
  the meals whose timestamp falls on \<open>targetDate\<close>, aggregates them with
  \<open>aggregateDay\<close>, and sets \<open>remaining\<close> to the energy goal minus the total energy.
\<close>

definition dailyStat :: "real \<Rightarrow> int \<Rightarrow> meal list \<Rightarrow> int \<Rightarrow> DailyStat" where
  "dailyStat goalEnergy tz meals targetDate =
     (let dayMeals = filter (\<lambda>m. dayOf tz (date m) = targetDate) meals;
          (energy, total) = aggregateDay dayMeals
      in \<lparr>stat.calories = energy, stat.macros = total, remaining = goalEnergy - energy,
          DailyStat.date = targetDate\<rparr>)"

text \<open>
  Modelled from the spec: weeklyStat of section 4.4, missing from the sources. One
  \<open>dailyStat\<close> per calendar day from \<open>startDate\<close> on, \<open>dayCount\<close> of them.
\<close>

definition weeklyStat :: "real \<Rightarrow> int \<Rightarrow> meal list \<Rightarrow> int \<Rightarrow> nat \<Rightarrow> DailyStat list" where
  "weeklyStat goalEnergy tz meals startDate dayCount =
     map (\<lambda>k. dailyStat goalEnergy tz meals (startDate + int k)) [0..<dayCount]"

section \<open>Properties of the pre-save hook\<close>

lemma forEach_item_closed:
  "forEach_item xs (a, b, c, d) =
     (if populated xs
      then Inr (a + sum_list (map (\<lambda>i. fst (contribution i)) xs),
                b + sum_list (map (\<lambda>i. fst (snd (contribution i))) xs),
                c + sum_list (map (\<lambda>i. fst (snd (snd (contribution i)))) xs),
                d + sum_list (map (\<lambda>i. snd (snd (snd (contribution i)))) xs))
      else Inl TypeError)"
proof (induction xs arbitrary: a b c d)
  case Nil
  show ?case by (simp add: populated_def)
next
  case (Cons item rest)
  show ?case
  proof (cases "food item")
    case None
    then show ?thesis by (simp add: populated_def)
  next
    case (Some f)
    have contrib: "contribution item =
        (calories f * quantity item, protein (macros f) * quantity item,
         carbs (macros f) * quantity item, fat (macros f) * quantity item)"
      using Some by (simp add: contribution_def)
    have pop: "populated (item # rest) = populated rest"
      using Some by (simp add: populated_def)
    have step: "forEach_item (item # rest) (a, b, c, d) =
        forEach_item rest (a + calories f * quantity item, b + protein (macros f) * quantity item,
          c + carbs (macros f) * quantity item, d + fat (macros f) * quantity item)"
      using Some by (simp add: Let_def)
    show ?thesis
      unfolding step pop Cons.IH by (simp add: contrib add.assoc)
  qed
qed

lemma populated_mset:
  assumes "mset xs = mset ys"
  shows "populated xs = populated ys"
proof -
  have "set xs = set ys" using assms by (rule mset_eq_setD)
  then show ?thesis by (simp add: populated_def list_all_iff)
qed

lemma sum_list_map_mset:
  fixes g :: "'a \<Rightarrow> real"
  assumes "mset xs = mset ys"
  shows "sum_list (map g xs) = sum_list (map g ys)"
proof -
  have "sum_mset (image_mset g (mset xs)) = sum_mset (image_mset g (mset ys))"
    using assms by simp
  then show ?thesis by (simp only: sum_mset_sum_list flip: mset_map)
qed

text \<open>The hook in closed form: it fails exactly on an unpopulated item, and otherwise
  stores the sums of the per-item contributions.\<close>

lemma pre_save_closed:
  "MealSchema_pre_save m =
     (if populated (items m)
      then Inr (m\<lparr>totalCalories := sum_list (map (\<lambda>i. fst (contribution i)) (items m)),
                 totalMacros :=
                   \<lparr>protein = sum_list (map (\<lambda>i. fst (snd (contribution i))) (items m)),
                    carbs = sum_list (map (\<lambda>i. fst (snd (snd (contribution i)))) (items m)),
                    fat = sum_list (map (\<lambda>i. snd (snd (snd (contribution i)))) (items m))\<rparr>\<rparr>)
      else Inl TypeError)"
  by (simp add: MealSchema_pre_save_def forEach_item_closed)

text \<open>
  C1. The claim asks for the food's per-serving vector scaled by the unit-aware
  multiplier: 200 g of a food with 50 kcal per 100 g serving should add 100 kcal. The
  hook multiplies by the raw quantity instead: the same item adds 50 * 200 = 10000 kcal
  (and 600 g protein, 1600 g carbohydrate, 200 g fat).
\<close>

theorem pre_save_raw_quantity_200g:
  "MealSchema_pre_save (meal_of [salad_200g]) =
     Inr ((meal_of [salad_200g])
            \<lparr>totalCalories := 10000, totalMacros := \<lparr>protein = 600, carbs = 1600, fat = 200\<rparr>\<rparr>)"
  by (simp add: MealSchema_pre_save_def meal_of_def salad_200g_def salad_def)

text \<open>
  C5. The claim asks for an UnsupportedUnitError, and no totals, when an item's unit is
  "piece" and the food's serving unit is "g". The hook never reads the unit: it counts
  the 2 pieces as 2 servings of the 100 g food and stores 100 kcal (6 g protein, 16 g
  carbohydrate, 2 g fat). This is the placeholder factor of C1 again.
\<close>

theorem pre_save_piece_against_gram:
  "foodItem.unit salad_2_pieces = ''piece'' \<and>
   servingSize.unit (servingSize salad) = ''g'' \<and>
   MealSchema_pre_save (meal_of [salad_2_pieces]) =
     Inr ((meal_of [salad_2_pieces])
            \<lparr>totalCalories := 100, totalMacros := \<lparr>protein = 6, carbs = 16, fat = 2\<rparr>\<rparr>)"
  by (simp add: MealSchema_pre_save_def meal_of_def salad_2_pieces_def salad_def)

text \<open>
  The one failure of the hook in this model is the TypeError on an item whose food is
  not a populated document; no item unit can make it fail.
\<close>

lemma pre_save_failure:
  "((\<exists>r. MealSchema_pre_save m = Inr r) = (\<forall>item \<in> set (items m). food item \<noteq> None)) \<and>
   ((\<exists>e. MealSchema_pre_save m = Inl e) = (\<exists>item \<in> set (items m). food item = None))"
  by (auto simp add: pre_save_closed populated_def list_all_iff)

text \<open>
  Over exact numbers, two meals whose item lists are permutations of each other get the
  same cached totals (or both fail with the same error). The program adds IEEE doubles
  from left to right and rounds after each addition, so this says nothing about how far
  its totals can drift apart when the items are reordered.
\<close>

lemma pre_save_permutation_exact:
  assumes "mset (items m') = mset (items m)"
  shows "cached (MealSchema_pre_save m') = cached (MealSchema_pre_save m)"
proof -
  have pop: "populated (items m') = populated (items m)"
    using assms by (rule populated_mset)
  have sums: "\<And>g :: foodItem \<Rightarrow> real. sum_list (map g (items m')) = sum_list (map g (items m))"
    using assms by (rule sum_list_map_mset)
  show ?thesis
    by (simp add: pre_save_closed cached_def pop sums)
qed

text \<open>
  C9. A successful run of the hook changes only \<open>totalCalories\<close> and \<open>totalMacros\<close>:
  items, user, name, type, date, isFavorite, notes and createdAt are those of the input.
\<close>

theorem pre_save_frame:
  assumes "MealSchema_pre_save m = Inr r"
  shows "user r = user m \<and> name r = name m \<and> type r = type m \<and> items r = items m \<and>
         date r = date m \<and> isFavorite r = isFavorite m \<and> notes r = notes m \<and>
         createdAt r = createdAt m \<and>
         r = m\<lparr>totalCalories := totalCalories r, totalMacros := totalMacros r\<rparr>"
  using assms by (auto simp add: pre_save_closed split: if_splits)

text \<open>C9, witness: the lunch of salad and bread, whose stale totals (all 7) are replaced.\<close>

theorem pre_save_frame_witness:
  "MealSchema_pre_save (meal_of [salad_200g, bread_2_slices]) = Inr saved_lunch \<and>
   user saved_lunch = ''u1'' \<and> name saved_lunch = ''lunch box'' \<and> type saved_lunch = ''lunch'' \<and>
   items saved_lunch = [salad_200g, bread_2_slices] \<and> date saved_lunch = 1700000000000 \<and>
   isFavorite saved_lunch = False \<and> notes saved_lunch = ''n'' \<and>
   createdAt saved_lunch = 1700000000000"
proof -
  have h: "MealSchema_pre_save (meal_of [salad_200g, bread_2_slices]) = Inr saved_lunch"
    by (simp add: MealSchema_pre_save_def saved_lunch_def meal_of_def salad_200g_def
        bread_2_slices_def salad_def bread_def)
  show ?thesis
    using h pre_save_frame [OF h] by (simp add: meal_of_def)
qed

text \<open>
  C10. For a meal with no items the hook stores zero in every cached field:
  \<open>totalCalories\<close> 0 and \<open>totalMacros\<close> protein, carbs and fat all 0.
\<close>

theorem pre_save_empty:
  assumes "items m = []"
  shows "MealSchema_pre_save m =
     Inr (m\<lparr>totalCalories := 0, totalMacros := \<lparr>protein = 0, carbs = 0, fat = 0\<rparr>\<rparr>)"
  using assms by (simp add: MealSchema_pre_save_def)

text \<open>C10, witness: an empty meal whose stale totals were 7.\<close>

theorem pre_save_empty_witness:
  "items (meal_of []) = [] \<and>
   MealSchema_pre_save (meal_of []) =
     Inr ((meal_of [])\<lparr>totalCalories := 0, totalMacros := \<lparr>protein = 0, carbs = 0, fat = 0\<rparr>\<rparr>) \<and>
   totalCalories (meal_of []) = 7"
proof -
  have h: "items (meal_of []) = []" by (simp add: meal_of_def)
  show ?thesis
    using h pre_save_empty [OF h] by (simp add: meal_of_def)
qed

section \<open>Properties of the goal computation\<close>

lemma Math_round_Ints: "Math_round x \<in> \<int>"
  by (simp add: Math_round_def)

lemma Math_round_nonpos:
  assumes "x < 0"
  shows "Math_round x \<le> 0"
proof -
  have "\<lfloor>x + 1 / 2\<rfloor> < 1" using assms by (simp add: floor_less_iff)
  then show ?thesis by (simp add: Math_round_def)
qed

lemma Math_round_neg_iff: "(Math_round x < 0) = (x < - 1 / 2)"
proof -
  have "(\<lfloor>x + 1 / 2\<rfloor> < 0) = (x + 1 / 2 < 0)" by (simp add: floor_less_iff)
  then show ?thesis by (simp add: Math_round_def) linarith
qed

lemma computeGoals_energy:
  "fst (computeGoals tdee w g) =
     (if g = ''gain'' then tdee + 500 else if g = ''lose'' then tdee - 500 else tdee)"
  by (simp add: computeGoals_def Let_def)

lemma computeGoals_macros:
  "snd (computeGoals tdee w g) =
     \<lparr>protein = Math_round (w * 2),
      carbs = Math_round ((fst (computeGoals tdee w g) - Math_round (w * 2) * 4
                - Math_round (fst (computeGoals tdee w g) * 0.25 / 9) * 9) / 4),
      fat = Math_round (fst (computeGoals tdee w g) * 0.25 / 9)\<rparr>"
  by (simp add: computeGoals_def Let_def)

text \<open>
  C4. The energy goal is the baseline estimate for "maintain", the baseline minus 500
  for "lose" and the baseline plus 500 for "gain"; the offset is the same whatever the
  baseline and the weight are.
\<close>

theorem computeGoals_offset:
  "fst (computeGoals tdee w ''maintain'') = tdee \<and>
   fst (computeGoals tdee w ''lose'') = tdee - 500 \<and>
   fst (computeGoals tdee w ''gain'') = tdee + 500 \<and>
   fst (computeGoals tdee w g) - tdee = fst (computeGoals tdee' w' g) - tdee'"
  by (simp add: computeGoals_energy)

text \<open>A successful registration stores exactly the two results of \<open>computeGoals\<close>.\<close>

lemma registerUser_stores_goals:
  "registerUser T False True now body = Response 201 ''Utilisateur cree avec succes'' (Some (newUser T now body)) \<and>
   (dailyCalorieGoal (newUser T now body), macroGoals (newUser T now body)) =
     computeGoals (T (gender body) (weight body) (height body) (dateOfBirth body) (activityLevel body))
       (weight body) (goal body)"
  by (simp add: registerUser_def newUser_def Let_def split: prod.splits)

text \<open>
  C2, counterexample. For a baseline of 2000 kcal and a weight of 70.3 kg the code rounds
  protein to 141 g and fat to 56 g first and derives 233 g of carbohydrate from them;
  the remainder taken from the unrounded energies (562.4 and 500 kcal) rounds to 234 g.
\<close>

theorem computeGoals_rounds_late_counterexample:
  "carbs (snd (computeGoals 2000 70.3 ''maintain'')) = 233 \<and>
   carbs_from_unrounded (fst (computeGoals 2000 70.3 ''maintain'')) 70.3 = 234"
  by (simp add: computeGoals_def carbs_from_unrounded_def Math_round_def Let_def)

text \<open>
  C2, as amended. Protein, fat and carbohydrate are each rounded to a whole number of
  grams by \<^verbatim>\<open>Math.round\<close>; the carbohydrate remainder is computed from the already
  rounded protein and fat grams and rounded once; the energy goal is stored as computed,
  so it is whole exactly when the baseline estimate is.
\<close>

theorem computeGoals_rounding:
  "(case computeGoals tdee w g of
      (calorieGoal, m) \<Rightarrow>
        protein m = Math_round (w * 2) \<and>
        fat m = Math_round (calorieGoal * 0.25 / 9) \<and>
        carbs m = Math_round ((calorieGoal - protein m * 4 - fat m * 9) / 4) \<and>
        protein m \<in> \<int> \<and> fat m \<in> \<int> \<and> carbs m \<in> \<int> \<and>
        (calorieGoal \<in> \<int>) = (tdee \<in> \<int>))"
proof -
  have e: "(fst (computeGoals tdee w g) \<in> \<int>) = (tdee \<in> \<int>)"
  proof -
    have "(tdee + 500 \<in> \<int>) = (tdee \<in> \<int>)"
      by (metis Ints_add Ints_diff Ints_numeral add_diff_cancel_right')
    moreover have "(tdee - 500 \<in> \<int>) = (tdee \<in> \<int>)"
      by (metis Ints_add Ints_diff Ints_numeral diff_add_cancel)
    ultimately show ?thesis by (simp add: computeGoals_energy)
  qed
  obtain calorieGoal m where cm: "computeGoals tdee w g = (calorieGoal, m)"
    by (cases "computeGoals tdee w g")
  have c: "calorieGoal = fst (computeGoals tdee w g)" and m: "m = snd (computeGoals tdee w g)"
    using cm by simp_all
  have "protein m = Math_round (w * 2)"
    and "fat m = Math_round (calorieGoal * 0.25 / 9)"
    and "carbs m = Math_round ((calorieGoal - protein m * 4 - fat m * 9) / 4)"
    unfolding m c by (subst computeGoals_macros, simp)+
  moreover have "(calorieGoal \<in> \<int>) = (tdee \<in> \<int>)" using e c by simp
  ultimately show ?thesis
    by (simp add: cm Math_round_Ints)
qed

text \<open>
  C3, counterexample. A baseline of 1000 kcal, a weight of 100 kg and the goal "lose"
  leave a remainder of -426 kcal: the registration succeeds with status 201 and stores
  a carbohydrate target of -106 g.
\<close>

theorem computeGoals_negative_carbs:
  "computeGoals 1000 100 ''lose'' = (500, \<lparr>protein = 200, carbs = - 106, fat = 14\<rparr>) \<and>
   registerUser (\<lambda>gender weight height dateOfBirth activityLevel. 1000) False True 0 body100 =
     Response 201 ''Utilisateur cree avec succes''
       (Some registered100)"
  by (simp add: computeGoals_def Math_round_def Let_def registerUser_def newUser_def body100_def
      registered100_def)

text \<open>
  C3, as amended. When the carbohydrate remainder is negative the target is not clamped:
  it is \<^verbatim>\<open>Math.round(remainder / 4)\<close>, never positive, and negative exactly when
  the remainder is below -2 kcal.
\<close>

theorem computeGoals_underflow:
  assumes "computeGoals tdee w g = (calorieGoal, m)"
    and "calorieGoal - protein m * 4 - fat m * 9 < 0"
  shows "carbs m = Math_round ((calorieGoal - protein m * 4 - fat m * 9) / 4) \<and>
         carbs m \<le> 0 \<and>
         (carbs m < 0) = (calorieGoal - protein m * 4 - fat m * 9 < - 2)"
proof -
  let ?r = "calorieGoal - protein m * 4 - fat m * 9"
  have c: "calorieGoal = fst (computeGoals tdee w g)" and m: "m = snd (computeGoals tdee w g)"
    using assms(1) by simp_all
  have carbs: "carbs m = Math_round (?r / 4)"
    unfolding m c by (subst computeGoals_macros, simp)+
  have "?r / 4 < 0" using assms(2) by simp
  then have "Math_round (?r / 4) \<le> 0" by (rule Math_round_nonpos)
  moreover have "(Math_round (?r / 4) < 0) = (?r < - 2)"
  proof -
    have "\<And>r :: real. (r / 4 < - 1 / 2) = (r < - 2)" by auto
    then show ?thesis unfolding Math_round_neg_iff by simp
  qed
  ultimately show ?thesis using carbs by simp
qed

text \<open>C3, witness: the same registration, remainder 500 - 800 - 126 = -426.\<close>

theorem computeGoals_underflow_witness:
  "computeGoals 1000 100 ''lose'' = (500, \<lparr>protein = 200, carbs = - 106, fat = 14\<rparr>) \<and>
   (500::real) - 200 * 4 - 14 * 9 < 0 \<and>
   carbs \<lparr>protein = 200, carbs = - 106, fat = 14\<rparr> = Math_round ((500 - 200 * 4 - 14 * 9) / 4) \<and>
   carbs \<lparr>protein = 200, carbs = - 106 :: real, fat = 14\<rparr> < 0"
proof -
  have h: "computeGoals 1000 100 ''lose'' = (500, \<lparr>protein = 200, carbs = - 106, fat = 14\<rparr>)"
    by (simp add: computeGoals_def Math_round_def Let_def)
  have r: "500 - protein \<lparr>protein = 200, carbs = - 106, fat = 14\<rparr> * 4
             - fat \<lparr>protein = 200, carbs = - 106, fat = 14\<rparr> * 9 < (0::real)"
    by simp
  show ?thesis
    using h computeGoals_underflow [OF h r] by simp
qed


section \<open>Properties of the statistics\<close>

lemma dailyStat_date: "DailyStat.date (dailyStat G tz meals d) = d"
  by (simp add: dailyStat_def Let_def split: prod.splits)

lemma dailyStat_no_meals:
  assumes "\<forall>m \<in> set meals. dayOf tz (meal.date m) \<noteq> d"
  shows "dailyStat G tz meals d =
     \<lparr>stat.calories = 0, stat.macros = \<lparr>protein = 0, carbs = 0, fat = 0\<rparr>, remaining = G,
      DailyStat.date = d\<rparr>"
proof -
  have "filter (\<lambda>m. dayOf tz (meal.date m) = d) meals = []"
    using assms by (simp add: filter_empty_conv)
  then show ?thesis
    by (simp add: dailyStat_def aggregateDay_def)
qed

text \<open>
  C6. \<open>weeklyStat\<close> returns exactly \<open>dayCount\<close> entries; their dates are
  \<open>startDate\<close>, \<open>startDate + 1\<close>, up to \<open>startDate + dayCount - 1\<close>, in ascending
  order; and the entry of a day on which no meal falls is present, with energy and
  macros all zero.
\<close>

theorem weeklyStat_complete:
  "length (weeklyStat G tz meals startDate dayCount) = dayCount \<and>
   map DailyStat.date (weeklyStat G tz meals startDate dayCount) =
     map (\<lambda>k. startDate + int k) [0..<dayCount] \<and>
   sorted_wrt (<) (map DailyStat.date (weeklyStat G tz meals startDate dayCount)) \<and>
   (\<forall>k<dayCount. (\<forall>m \<in> set meals. dayOf tz (meal.date m) \<noteq> startDate + int k) \<longrightarrow>
      weeklyStat G tz meals startDate dayCount ! k =
        \<lparr>stat.calories = 0, stat.macros = \<lparr>protein = 0, carbs = 0, fat = 0\<rparr>, remaining = G,
         DailyStat.date = startDate + int k\<rparr>)"
proof -
  let ?ws = "weeklyStat G tz meals startDate dayCount"
  have len: "length ?ws = dayCount"
    by (simp add: weeklyStat_def)
  have dates: "map DailyStat.date ?ws = map (\<lambda>k. startDate + int k) [0..<dayCount]"
    by (simp add: weeklyStat_def dailyStat_date)
  have asc: "sorted_wrt (<) (map DailyStat.date ?ws)"
    unfolding dates by (simp add: sorted_wrt_iff_nth_less)
  have zero: "\<forall>k<dayCount. (\<forall>m \<in> set meals. dayOf tz (meal.date m) \<noteq> startDate + int k) \<longrightarrow>
      ?ws ! k = \<lparr>stat.calories = 0, stat.macros = \<lparr>protein = 0, carbs = 0, fat = 0\<rparr>,
                 remaining = G, DailyStat.date = startDate + int k\<rparr>"
    by (simp add: weeklyStat_def dailyStat_no_meals)
  show ?thesis using len dates asc zero by blast
qed

text \<open>
  C6, witness: three days around the one meal of day 19675. The day before is a
  zero-filled entry, the day itself carries the meal's cached totals.
\<close>

theorem weeklyStat_complete_witness:
  "length (weeklyStat 2000 0 [saved_lunch] 19674 3) = 3 \<and>
   map DailyStat.date (weeklyStat 2000 0 [saved_lunch] 19674 3) = [19674, 19675, 19676] \<and>
   weeklyStat 2000 0 [saved_lunch] 19674 3 ! 0 =
     \<lparr>stat.calories = 0, stat.macros = \<lparr>protein = 0, carbs = 0, fat = 0\<rparr>, remaining = 2000,
      DailyStat.date = 19674\<rparr> \<and>
   weeklyStat 2000 0 [saved_lunch] 19674 3 ! 1 =
     \<lparr>stat.calories = 10160, stat.macros = \<lparr>protein = 608, carbs = 1630, fat = 202\<rparr>,
      remaining = - 8160, DailyStat.date = 19675\<rparr>"
proof -
  have h: "\<forall>m \<in> set [saved_lunch]. dayOf 0 (meal.date m) \<noteq> 19674 + int 0"
    by (simp add: dayOf_def saved_lunch_def meal_of_def)
  have k: "(0::nat) < 3" by simp
  have all: "length (weeklyStat 2000 0 [saved_lunch] 19674 3) = 3 \<and>
   map DailyStat.date (weeklyStat 2000 0 [saved_lunch] 19674 3) =
     map (\<lambda>k. 19674 + int k) [0..<3] \<and>
   sorted_wrt (<) (map DailyStat.date (weeklyStat 2000 0 [saved_lunch] 19674 3)) \<and>
   (\<forall>k<3. (\<forall>m \<in> set [saved_lunch]. dayOf 0 (meal.date m) \<noteq> 19674 + int k) \<longrightarrow>
      weeklyStat 2000 0 [saved_lunch] 19674 3 ! k =
        \<lparr>stat.calories = 0, stat.macros = \<lparr>protein = 0, carbs = 0, fat = 0\<rparr>, remaining = 2000,
         DailyStat.date = 19674 + int k\<rparr>)"
    by (rule weeklyStat_complete)
  have d0: "weeklyStat 2000 0 [saved_lunch] 19674 3 ! 0 =
     \<lparr>stat.calories = 0, stat.macros = \<lparr>protein = 0, carbs = 0, fat = 0\<rparr>, remaining = 2000,
      DailyStat.date = 19674 + int 0\<rparr>"
    using all h k by blast
  have d1: "weeklyStat 2000 0 [saved_lunch] 19674 3 ! 1 =
     \<lparr>stat.calories = 10160, stat.macros = \<lparr>protein = 608, carbs = 1630, fat = 202\<rparr>,
      remaining = - 8160, DailyStat.date = 19675\<rparr>"
    by (simp add: weeklyStat_def dailyStat_def dayOf_def aggregateDay_def saved_lunch_def
        meal_of_def upt_rec_numeral)
  have ds: "map (\<lambda>k. 19674 + int k) [0..<3] = [19674, 19675, 19676]"
    by (simp add: numeral_3_eq_3 upt_rec)
  show ?thesis using all d0 d1 ds by simp
qed

text \<open>
  C7. On a date on which no meal of the list falls, \<open>dailyStat\<close> returns energy 0,
  macros all 0, and a \<open>remaining\<close> equal to the full energy goal.
\<close>

theorem dailyStat_no_logged_meals:
  assumes "\<forall>m \<in> set meals. dayOf tz (meal.date m) \<noteq> targetDate"
  shows "stat.calories (dailyStat G tz meals targetDate) = 0 \<and>
         stat.macros (dailyStat G tz meals targetDate) = \<lparr>protein = 0, carbs = 0, fat = 0\<rparr> \<and>
         stat.remaining (dailyStat G tz meals targetDate) = G"
proof -
  have "filter (\<lambda>m. dayOf tz (meal.date m) = targetDate) meals = []"
    using assms by (simp add: filter_empty_conv)
  then show ?thesis
    by (simp add: dailyStat_def aggregateDay_def)
qed

text \<open>C7, witness: the day after the one logged meal, with a goal of 2000 kcal.\<close>

theorem dailyStat_no_logged_meals_witness:
  "dayOf 0 (meal.date saved_lunch) = 19675 \<and>
   stat.calories (dailyStat 2000 0 [saved_lunch] 19676) = 0 \<and>
   stat.macros (dailyStat 2000 0 [saved_lunch] 19676) = \<lparr>protein = 0, carbs = 0, fat = 0\<rparr> \<and>
   stat.remaining (dailyStat 2000 0 [saved_lunch] 19676) = 2000"
proof -
  have d: "dayOf 0 (meal.date saved_lunch) = 19675"
    by (simp add: dayOf_def saved_lunch_def meal_of_def)
  have h: "\<forall>m \<in> set [saved_lunch]. dayOf 0 (meal.date m) \<noteq> 19676"
    using d by simp
  show ?thesis
    using d dailyStat_no_logged_meals [OF h, of 2000] by simp
qed

text \<open>
  The dashboard's own fallback, used when it holds no daily stat at all: energy and macros
  are zero, and \<open>remaining\<close> is the user's goal when that is present and not 0, and the
  default 2000 otherwise.
\<close>

lemma today_without_daily:
  "stat.calories (today None u) = 0 \<and>
   stat.macros (today None u) = \<lparr>protein = 0, carbs = 0, fat = 0\<rparr> \<and>
   (\<forall>v g. u = Some v \<and> authUser.dailyCalorieGoal v = Some g \<and> g \<noteq> 0 \<longrightarrow>
      stat.remaining (today None u) = g) \<and>
   (u = None \<or> (\<exists>v. u = Some v \<and> authUser.dailyCalorieGoal v \<in> {None, Some 0}) \<longrightarrow>
      stat.remaining (today None u) = 2000)"
  by (auto simp add: today_def)

lemma today_zero_goal:
  "stat.remaining (today None (Some \<lparr>authUser.dailyCalorieGoal = Some 0\<rparr>)) = 2000"
  by (simp add: today_def)


end
